theory Spec2Isabelle
  imports Complex_Main "HOL-Library.Word"
begin

unbundle bit_operations_syntax

section \<open>Data model\<close>

text \<open>
  The model follows \<^verbatim>\<open>components/LiveSession.tsx\<close> (the revision with the live
  transcript and the retry button) and \<^verbatim>\<open>types.ts\<close>. JavaScript numbers that hold
  audio samples and clock values are modelled as \<^typ>\<open>real\<close>: every arithmetic step the
  codec performs on a sample (a multiplication or division by \<open>2^15\<close>, a truncation) is
  exact in IEEE arithmetic, so the reals contain the floats' behaviour; the one addition
  on clock values (the playback cursor plus a duration) is exact in the model and rounded
  in the program, and every later read sees the same stored sum. Strings are
  sequences of code units below 256, one \<^typ>\<open>char\<close> per code unit (text outside Latin-1
  is outside the model); wall-clock dates are milliseconds.
\<close>

datatype SessionStatus = DISCONNECTED | CONNECTING | CONNECTED | ERROR

datatype Role = User | Assistant

record ChatMessage =
  role :: Role
  msg_text :: string
  timestamp :: nat

record Blob =
  blob_data :: string
  mimeType :: string

record AudioBuffer =
  numberOfChannels :: nat
  frames :: nat
  sampleRate :: nat
  channelData :: "real list list"

definition duration :: "AudioBuffer \<Rightarrow> real" where
  "duration b = real (frames b) / real (sampleRate b)"

section \<open>Frame codec\<close>

subsection \<open>Platform functions: typed arrays and Base64\<close>

text \<open>
  Storing a number into an \<^verbatim>\<open>Int16Array\<close> truncates it towards zero and keeps the
  low 16 bits (ECMAScript \<^verbatim>\<open>ToInt16\<close>); \<^const>\<open>sint\<close> reads the element back.
\<close>

definition ToInt16 :: "real \<Rightarrow> 16 word" where
  "ToInt16 x = word_of_int (if 0 \<le> x then \<lfloor>x\<rfloor> else \<lceil>x\<rceil>)"

text \<open>\<^verbatim>\<open>new Uint8Array(int16.buffer)\<close>: the little-endian bytes of the elements.\<close>

definition int16_bytes :: "16 word \<Rightarrow> 8 word list" where
  "int16_bytes w = [ucast w, ucast (drop_bit 8 w)]"

definition Uint8Array_of_Int16 :: "16 word list \<Rightarrow> 8 word list" where
  "Uint8Array_of_Int16 ws = concat (map int16_bytes ws)"

text \<open>
  \<^verbatim>\<open>new Int16Array(data.buffer)\<close>: pairs of bytes, low byte first; a buffer of odd length
  raises a RangeError (\<open>None\<close>).
\<close>

fun Int16Array_of_bytes :: "8 word list \<Rightarrow> 16 word list option" where
  "Int16Array_of_bytes [] = Some []"
| "Int16Array_of_bytes [lo] = None"
| "Int16Array_of_bytes (lo # hi # rest) =
     (case Int16Array_of_bytes rest of
        None \<Rightarrow> None
      | Some ws \<Rightarrow> Some ((ucast lo OR push_bit 8 (ucast hi)) # ws))"

text \<open>
  \<^verbatim>\<open>btoa\<close> and \<^verbatim>\<open>atob\<close> on binary strings (one \<^typ>\<open>char\<close> per byte), after RFC 4648
  and the forgiving-base64 decoder of the HTML standard: \<^verbatim>\<open>atob\<close> drops ASCII
  whitespace, drops one or two trailing \<open>=\<close> when the length is a multiple of four, and
  fails (\<open>None\<close>, an InvalidCharacterError) on a length of \<open>1\<close> modulo \<open>4\<close> or on a
  character outside the alphabet.
\<close>

definition b64_char :: "nat \<Rightarrow> char" where
  "b64_char i =
     (if i < 26 then char_of (65 + i)
      else if i < 52 then char_of (71 + i)
      else if i < 62 then char_of (i - 4)
      else if i = 62 then CHR ''+'' else CHR ''/'')"

definition b64_index :: "char \<Rightarrow> nat option" where
  "b64_index c =
     (let n = (of_char c :: nat) in
      if 65 \<le> n \<and> n \<le> 90 then Some (n - 65)
      else if 97 \<le> n \<and> n \<le> 122 then Some (n - 71)
      else if 48 \<le> n \<and> n \<le> 57 then Some (n + 4)
      else if n = 43 then Some 62
      else if n = 47 then Some 63
      else None)"

fun sextets :: "nat list \<Rightarrow> nat list" where
  "sextets [] = []"
| "sextets [a] = [a div 4, (a mod 4) * 16]"
| "sextets [a, b] = [a div 4, (a mod 4) * 16 + b div 16, (b mod 16) * 4]"
| "sextets (a # b # c # rest) =
     [a div 4, (a mod 4) * 16 + b div 16, (b mod 16) * 4 + c div 64, c mod 64] @ sextets rest"

definition btoa :: "string \<Rightarrow> string" where
  "btoa s =
     map b64_char (sextets (map of_char s))
       @ replicate ((3 - length s mod 3) mod 3) (CHR ''='')"

fun octets :: "nat list \<Rightarrow> nat list" where
  "octets (p # q # r # t # rest) =
     [p * 4 + q div 16, (q mod 16) * 16 + r div 4, (r mod 4) * 64 + t] @ octets rest"
| "octets [p, q, r] = [p * 4 + q div 16, (q mod 16) * 16 + r div 4]"
| "octets [p, q] = [p * 4 + q div 16]"
| "octets _ = []"

definition ascii_whitespace :: "char \<Rightarrow> bool" where
  "ascii_whitespace c = ((of_char c :: nat) \<in> {9, 10, 12, 13, 32})"

definition strip_padding :: "string \<Rightarrow> string" where
  "strip_padding d =
     (if d \<noteq> [] \<and> last d = CHR ''='' then
        (if butlast d \<noteq> [] \<and> last (butlast d) = CHR ''='' then butlast (butlast d)
         else butlast d)
      else d)"

definition atob :: "string \<Rightarrow> string option" where
  "atob input =
     (let d = filter (\<lambda>c. \<not> ascii_whitespace c) input;
          d = (if length d mod 4 = 0 then strip_padding d else d)
      in if length d mod 4 = 1 then None
         else case those (map b64_index d) of
                None \<Rightarrow> None
              | Some ix \<Rightarrow> Some (map char_of (octets ix)))"

subsection \<open>The helper functions of the component\<close>

text \<open>\<^verbatim>\<open>encode(bytes)\<close>: one character per byte, then \<^verbatim>\<open>btoa\<close>.\<close>

definition encode :: "8 word list \<Rightarrow> string" where
  "encode bytes = btoa (map (\<lambda>b. char_of (unat b)) bytes)"

text \<open>\<^verbatim>\<open>decode(base64)\<close>: \<^verbatim>\<open>atob\<close>, then one byte per character code.\<close>

definition decode :: "string \<Rightarrow> 8 word list option" where
  "decode base64 = map_option (map (\<lambda>c. word_of_nat (of_char c))) (atob base64)"

text \<open>\<^verbatim>\<open>createBlob(data)\<close>: \<^verbatim>\<open>int16[i] = data[i] * 32768\<close>, with no clamping.\<close>

definition createBlob :: "real list \<Rightarrow> Blob" where
  "createBlob samples =
     \<lparr> blob_data = encode (Uint8Array_of_Int16 (map (\<lambda>x. ToInt16 (x * 32768)) samples)),
       mimeType = ''audio/pcm;rate=16000'' \<rparr>"

text \<open>
  \<^verbatim>\<open>decodeAudioData(data, ctx, sampleRate, numChannels)\<close>. \<^verbatim>\<open>ctx.createBuffer\<close> raises a
  NotSupportedError for zero channels, zero frames or a zero rate, and keeps the whole
  part of a fractional frame count.
\<close>

definition decodeAudioData :: "8 word list \<Rightarrow> nat \<Rightarrow> nat \<Rightarrow> AudioBuffer option" where
  "decodeAudioData bytes rate numChannels =
     (case Int16Array_of_bytes bytes of
        None \<Rightarrow> None
      | Some dataInt16 \<Rightarrow>
          (let frameCount = length dataInt16 div numChannels in
           if numChannels = 0 \<or> frameCount = 0 \<or> rate = 0 then None
           else Some \<lparr> numberOfChannels = numChannels, frames = frameCount, sampleRate = rate,
                  channelData =
                    map (\<lambda>channel. map (\<lambda>i. real_of_int (sint (dataInt16 ! (i * numChannels + channel))) / 32768)
                                       [0 ..< frameCount])
                        [0 ..< numChannels] \<rparr>))"

text \<open>
  Encoding a block of samples and decoding the result as one channel: what the peer of
  \<^verbatim>\<open>createBlob\<close> reads with \<^verbatim>\<open>decode\<close> and \<^verbatim>\<open>decodeAudioData\<close>.
\<close>

definition roundTrip :: "real list \<Rightarrow> real list option" where
  "roundTrip samples =
     (case decode (blob_data (createBlob samples)) of
        None \<Rightarrow> None
      | Some bytes \<Rightarrow>
          (case decodeAudioData bytes 16000 1 of
             None \<Rightarrow> None
           | Some b \<Rightarrow> Some (channelData b ! 0)))"

section \<open>The live session component\<close>

subsection \<open>State\<close>

text \<open>
  An \<^verbatim>\<open>AudioBufferSourceNode\<close>: the context it was created on, its buffer, the time
  passed to \<^verbatim>\<open>start\<close>, and whether \<^verbatim>\<open>stop\<close> was called on it. Nodes, audio contexts,
  media streams and channels are named by the order of their creation.
\<close>

record SourceNode =
  node_ctx :: nat
  buffer :: AudioBuffer
  startTime :: real
  stopped :: bool

text \<open>
  A call of \<^verbatim>\<open>setHistory\<close>. React queues the argument and applies the queue at the next
  render; an updater function runs then, not when it is queued (each handler that calls
  \<^verbatim>\<open>setHistory\<close> with an updater has queued another update of the component before, so
  React does not evaluate the updater ahead of the render either). \<open>AppendTurn\<close> is an
  updater whose message was computed by the handler; \<open>AppendInterrupted\<close> is the updater of
  the interruption branch, which reads \<^verbatim>\<open>outputBufferRef.current\<close> and \<^verbatim>\<open>new Date()\<close> inside
  the function.
\<close>

datatype HistoryUpdate =
    SetHistory "ChatMessage list"
  | AppendTurn ChatMessage
  | AppendInterrupted

text \<open>The parts of a \<^verbatim>\<open>LiveServerMessage\<close> the handler reads.\<close>

record LiveServerMessage =
  audio :: "string option"
  inputTranscription :: "string option"
  outputTranscription :: "string option"
  turnComplete :: bool
  interrupted :: bool

text \<open>
  The component's React state, its refs, the \<^verbatim>\<open>active\<close> variable of each run of the
  session effect (indexed by the run), and the platform objects the component creates:
  the number of audio contexts, media streams and channels created so far, those on which
  \<^verbatim>\<open>close\<close> or \<^verbatim>\<open>stop\<close> was called, the source nodes, and the frames handed to a
  channel. The refs \<^verbatim>\<open>inputSourceRef\<close>, \<^verbatim>\<open>processorRef\<close> and \<^verbatim>\<open>chatScrollRef\<close> are
  written and never read by the session logic; they are left out.

  A state setter is applied where the handler calls it, except \<^verbatim>\<open>setHistory\<close>: every
  other setter is given a value, or an updater that reads nothing but the previous state
  and values the handler has already computed, so that the time at which React applies it
  makes no difference to the state after the next render.
\<close>

record LiveSession =
  status :: SessionStatus
  isMuted :: bool
  errorMsg :: "string option"
  logs :: "string list"
  aiSpeaking :: bool
  userSpeaking :: bool
  retryTrigger :: nat
  history :: "ChatMessage list"
  historyUpdates :: "HistoryUpdate list"
  realtimeInput :: string
  realtimeOutput :: string
  inputAudioContextRef :: "nat option"
  outputAudioContextRef :: "nat option"
  mediaStreamRef :: "nat option"
  isMutedRef :: bool
  nextStartTimeRef :: real
  sourcesRef :: "nat list"
  inputBufferRef :: string
  outputBufferRef :: string
  sessionPromiseRef :: "nat option"
  active :: "nat \<Rightarrow> bool"
  runs :: nat
  contexts :: nat
  closedContexts :: "nat list"
  streams :: nat
  stoppedStreams :: "nat list"
  channels :: nat
  closedChannels :: "nat list"
  nodes :: "SourceNode list"
  sent :: "(nat \<times> Blob) list"

text \<open>What the callbacks of one run of the effect close over.\<close>

record Callbacks =
  run :: nat
  inputCtx :: nat
  outputCtx :: nat
  capturedMuted :: bool

text \<open>What the environment decides during setup.\<close>

record Env =
  API_KEY :: bool
  audioContextError :: "string option"

datatype MicResult = Granted | Denied string

definition initial :: LiveSession where
  "initial =
     \<lparr> status = CONNECTING, isMuted = False, errorMsg = None, logs = [],
       aiSpeaking = False, userSpeaking = False, retryTrigger = 0,
       history = [], historyUpdates = [], realtimeInput = [], realtimeOutput = [],
       inputAudioContextRef = None, outputAudioContextRef = None, mediaStreamRef = None,
       isMutedRef = False, nextStartTimeRef = 0, sourcesRef = [],
       inputBufferRef = [], outputBufferRef = [], sessionPromiseRef = None,
       active = (\<lambda>k. False), runs = 0,
       contexts = 0, closedContexts = [], streams = 0, stoppedStreams = [],
       channels = 0, closedChannels = [], nodes = [], sent = [] \<rparr>"

subsection \<open>Rendering\<close>

text \<open>
  \<^verbatim>\<open>String.prototype.trim\<close>: the white space and line terminator code units are removed
  from both ends. Below 256 these are the tab, line feed, vertical tab, form feed, carriage
  return, space and no-break space (160).
\<close>

definition js_whitespace :: "char \<Rightarrow> bool" where
  "js_whitespace c = ((of_char c :: nat) \<in> {9, 10, 11, 12, 13, 32, 160})"

definition trim :: "string \<Rightarrow> string" where
  "trim s = rev (dropWhile js_whitespace (rev (dropWhile js_whitespace s)))"

fun applyUpdate :: "string \<Rightarrow> nat \<Rightarrow> ChatMessage list \<Rightarrow> HistoryUpdate \<Rightarrow> ChatMessage list" where
  "applyUpdate ob now prev (SetHistory h) = h"
| "applyUpdate ob now prev (AppendTurn m) = prev @ [m]"
| "applyUpdate ob now prev AppendInterrupted =
     prev @ [\<lparr> role = Assistant, msg_text = trim ob @ ''...'', timestamp = now \<rparr>]"

text \<open>A render at wall-clock time \<open>now\<close> applies the queued history updates in order.\<close>

definition render :: "nat \<Rightarrow> LiveSession \<Rightarrow> LiveSession" where
  "render now s =
     s\<lparr> history := foldl (applyUpdate (outputBufferRef s) now) (history s) (historyUpdates s),
        historyUpdates := [] \<rparr>"

text \<open>The retry button is rendered inside the error banner, shown when the status is \<open>ERROR\<close>.\<close>

definition retryOffered :: "LiveSession \<Rightarrow> bool" where
  "retryOffered s = (status s = ERROR)"

definition errorBanner :: "LiveSession \<Rightarrow> string option option" where
  "errorBanner s = (if status s = ERROR then Some (errorMsg s) else None)"

subsection \<open>Logging and teardown\<close>

definition addLog :: "string \<Rightarrow> LiveSession \<Rightarrow> LiveSession" where
  "addLog msg s = s\<lparr> logs := drop (length (logs s) - 4) (logs s) @ [msg] \<rparr>"

definition stop_node :: "nat \<Rightarrow> SourceNode list \<Rightarrow> SourceNode list" where
  "stop_node k ns = (if k < length ns then ns[k := (ns ! k)\<lparr> stopped := True \<rparr>] else ns)"

text \<open>\<^verbatim>\<open>sourcesRef.current.forEach(s => s.stop()); sourcesRef.current.clear()\<close>.\<close>

definition stop_sources :: "LiveSession \<Rightarrow> LiveSession" where
  "stop_sources s = s\<lparr> nodes := fold stop_node (sourcesRef s) (nodes s), sourcesRef := [] \<rparr>"

text \<open>
  \<^verbatim>\<open>disconnect\<close>. The channel's \<^verbatim>\<open>close\<close> is requested through the session promise;
  \<open>closedChannels\<close> records the request.
\<close>

definition disconnect :: "LiveSession \<Rightarrow> LiveSession" where
  "disconnect s0 =
     (let s1 = stop_sources s0;
          s2 = (case inputAudioContextRef s1 of
                  None \<Rightarrow> s1
                | Some c \<Rightarrow> s1\<lparr> closedContexts := closedContexts s1 @ [c],
                                inputAudioContextRef := None \<rparr>);
          s3 = (case outputAudioContextRef s2 of
                  None \<Rightarrow> s2
                | Some c \<Rightarrow> s2\<lparr> closedContexts := closedContexts s2 @ [c],
                                outputAudioContextRef := None \<rparr>);
          s4 = (case mediaStreamRef s3 of
                  None \<Rightarrow> s3
                | Some m \<Rightarrow> s3\<lparr> stoppedStreams := stoppedStreams s3 @ [m],
                                mediaStreamRef := None \<rparr>);
          s5 = (case sessionPromiseRef s4 of
                  None \<Rightarrow> s4
                | Some ch \<Rightarrow> s4\<lparr> closedChannels := closedChannels s4 @ [ch] \<rparr>)
      in s5\<lparr> sessionPromiseRef := None, status := DISCONNECTED \<rparr>)"

subsection \<open>Starting a session\<close>

text \<open>The \<^verbatim>\<open>catch\<close> block of \<^verbatim>\<open>startSession\<close>.\<close>

definition setupFailed :: "string \<Rightarrow> LiveSession \<Rightarrow> LiveSession" where
  "setupFailed message s =
     s\<lparr> errorMsg := Some (if message = [] then ''Failed to initialize session'' else message),
        status := ERROR \<rparr>"

text \<open>
  \<^verbatim>\<open>startSession\<close> up to \<^verbatim>\<open>await getUserMedia\<close>, for run \<open>k\<close> of the effect. The second
  component is the closure that waits for the microphone (\<open>None\<close> when setup failed).
\<close>

definition startSession :: "Env \<Rightarrow> nat \<Rightarrow> LiveSession \<Rightarrow> LiveSession \<times> Callbacks option" where
  "startSession env k s0 =
     (if \<not> API_KEY env then (setupFailed ''API Key not found in environment.'' s0, None)
      else
        let s1 = addLog ''Initializing Audio Contexts...''
                   (s0\<lparr> status := CONNECTING, errorMsg := None,
                        historyUpdates := historyUpdates s0 @ [SetHistory []],
                        inputBufferRef := [], outputBufferRef := [] \<rparr>)
        in case audioContextError env of
             Some message \<Rightarrow> (setupFailed message s1, None)
           | None \<Rightarrow>
               (let i = contexts s1;
                    s2 = s1\<lparr> contexts := i + 2, inputAudioContextRef := Some i,
                             outputAudioContextRef := Some (i + 1) \<rparr>
                in (addLog ''Requesting Microphone...'' s2,
                    Some \<lparr> run = k, inputCtx = i, outputCtx = i + 1,
                           capturedMuted = isMuted s0 \<rparr>)))"

text \<open>
  The rest of \<^verbatim>\<open>startSession\<close>, once \<^verbatim>\<open>getUserMedia\<close> has settled. \<open>clientError\<close> is
  the message of an exception raised while the client is constructed. The continuation
  does not read \<^verbatim>\<open>active\<close>.
\<close>

definition startSession_resume ::
    "MicResult \<Rightarrow> string option \<Rightarrow> LiveSession \<Rightarrow> LiveSession" where
  "startSession_resume mic clientError s0 =
     (case mic of
        Denied message \<Rightarrow> setupFailed message s0
      | Granted \<Rightarrow>
          (let s1 = s0\<lparr> streams := streams s0 + 1, mediaStreamRef := Some (streams s0) \<rparr>
           in case clientError of
                Some message \<Rightarrow> setupFailed message s1
              | None \<Rightarrow>
                  (let s2 = addLog ''Connecting to Gemini Live API...'' s1
                   in s2\<lparr> channels := channels s2 + 1,
                          sessionPromiseRef := Some (channels s2) \<rparr>)))"

text \<open>The session effect: its body and its cleanup.\<close>

definition effect_run :: "Env \<Rightarrow> LiveSession \<Rightarrow> LiveSession \<times> Callbacks option" where
  "effect_run env s =
     startSession env (runs s) (s\<lparr> runs := runs s + 1, active := (active s)(runs s := True) \<rparr>)"

definition effect_cleanup :: "nat \<Rightarrow> LiveSession \<Rightarrow> LiveSession" where
  "effect_cleanup k s = disconnect (s\<lparr> active := (active s)(k := False) \<rparr>)"

definition current_run :: "LiveSession \<Rightarrow> nat" where
  "current_run s = runs s - 1"



text \<open>
  \<^verbatim>\<open>toggleMute\<close>, and what React does with it: \<^verbatim>\<open>isMuted\<close> is a dependency only of the
  effect that copies it into \<^verbatim>\<open>isMutedRef\<close>.
\<close>

definition toggleMute :: "LiveSession \<Rightarrow> LiveSession" where
  "toggleMute s = s\<lparr> isMuted := \<not> isMuted s \<rparr>"

definition clickMute :: "nat \<Rightarrow> LiveSession \<Rightarrow> LiveSession" where
  "clickMute now s = (let s1 = render now (toggleMute s) in s1\<lparr> isMutedRef := isMuted s1 \<rparr>)"

subsection \<open>Channel callbacks\<close>

definition onopen :: "Callbacks \<Rightarrow> LiveSession \<Rightarrow> LiveSession" where
  "onopen c s =
     (if \<not> active s (run c) then s
      else (addLog ''Session Connected!'' s)\<lparr> status := CONNECTED \<rparr>)"

text \<open>
  \<^verbatim>\<open>processor.onaudioprocess\<close>, installed by \<^verbatim>\<open>onopen\<close>. The frame is handed to the
  channel behind the session promise; \<open>sent\<close> records the channel and the frame.
\<close>

definition onaudioprocess :: "Callbacks \<Rightarrow> real list \<Rightarrow> LiveSession \<Rightarrow> LiveSession" where
  "onaudioprocess c inputData s =
     (if isMutedRef s \<or> \<not> active s (run c) then s
      else
        let rms = sqrt (foldl (\<lambda>sum x. sum + x * x) 0 inputData / real (length inputData));
            s1 = (if rms > 0.02 then s\<lparr> userSpeaking := True \<rparr> else s);
            pcmBlob = createBlob inputData
        in case sessionPromiseRef s1 of
             None \<Rightarrow> s1
           | Some ch \<Rightarrow> s1\<lparr> sent := sent s1 @ [(ch, pcmBlob)] \<rparr>)"


text \<open>The transcription branches of \<^verbatim>\<open>onmessage\<close>.\<close>

definition transcribe :: "LiveServerMessage \<Rightarrow> LiveSession \<Rightarrow> LiveSession" where
  "transcribe m s0 =
     (let s1 = (case inputTranscription m of
                  None \<Rightarrow> s0
                | Some t \<Rightarrow>
                    if t = [] then s0
                    else s0\<lparr> inputBufferRef := inputBufferRef s0 @ t,
                             realtimeInput := inputBufferRef s0 @ t \<rparr>)
      in case outputTranscription m of
           None \<Rightarrow> s1
         | Some t \<Rightarrow>
             if t = [] then s1
             else s1\<lparr> outputBufferRef := outputBufferRef s1 @ t,
                      realtimeOutput := outputBufferRef s1 @ t \<rparr>)"

text \<open>The \<^verbatim>\<open>turnComplete\<close> branch; \<open>now\<close> is \<^verbatim>\<open>new Date()\<close>.\<close>

definition commitTurn :: "nat \<Rightarrow> LiveSession \<Rightarrow> LiveSession" where
  "commitTurn now s0 =
     (let userText = trim (inputBufferRef s0);
          aiText = trim (outputBufferRef s0);
          s1 = (if userText \<noteq> [] then
                  s0\<lparr> historyUpdates := historyUpdates s0
                         @ [AppendTurn \<lparr> role = User, msg_text = userText, timestamp = now \<rparr>] \<rparr>
                else s0);
          s2 = (if aiText \<noteq> [] then
                  s1\<lparr> historyUpdates := historyUpdates s1
                         @ [AppendTurn \<lparr> role = Assistant, msg_text = aiText, timestamp = now \<rparr>] \<rparr>
                else s1)
      in s2\<lparr> inputBufferRef := [], outputBufferRef := [],
             realtimeInput := [], realtimeOutput := [] \<rparr>)"

text \<open>The \<^verbatim>\<open>interrupted\<close> branch.\<close>

definition interrupt :: "LiveSession \<Rightarrow> LiveSession" where
  "interrupt s0 =
     (let s1 = stop_sources (addLog ''Interrupted by user'' s0);
          s2 = s1\<lparr> nextStartTimeRef := 0, aiSpeaking := False \<rparr>;
          s3 = (if trim (outputBufferRef s2) \<noteq> [] then
                  s2\<lparr> historyUpdates := historyUpdates s2 @ [AppendInterrupted] \<rparr>
                else s2)
      in s3\<lparr> outputBufferRef := [], realtimeOutput := [] \<rparr>)"

text \<open>Everything in \<^verbatim>\<open>onmessage\<close> after the audio branch.\<close>

definition onmessage_rest :: "nat \<Rightarrow> LiveServerMessage \<Rightarrow> LiveSession \<Rightarrow> LiveSession" where
  "onmessage_rest now m s0 =
     (let s1 = transcribe m s0;
          s2 = (if turnComplete m then commitTurn now s1 else s1)
      in if interrupted m then interrupt s2 else s2)"

text \<open>\<^verbatim>\<open>decodeAudioData(decode(base64Audio), outputCtx, 24000, 1)\<close>.\<close>

definition decodeChunk :: "string \<Rightarrow> AudioBuffer option" where
  "decodeChunk base64Audio =
     (case decode base64Audio of
        None \<Rightarrow> None
      | Some bytes \<Rightarrow> decodeAudioData bytes 24000 1)"

text \<open>
  \<^verbatim>\<open>onmessage\<close> up to \<^verbatim>\<open>await decodeAudioData\<close>. \<open>currentTime\<close> is the output context's
  clock. The second component is the decoded buffer the handler waits for; it is \<open>None\<close>
  when the handler has finished (no audio in the message) or was aborted by an exception
  of \<^verbatim>\<open>atob\<close>, \<^verbatim>\<open>Int16Array\<close> or \<^verbatim>\<open>createBuffer\<close>.
\<close>

definition onmessage ::
    "Callbacks \<Rightarrow> real \<Rightarrow> nat \<Rightarrow> LiveServerMessage \<Rightarrow> LiveSession
       \<Rightarrow> LiveSession \<times> AudioBuffer option" where
  "onmessage c currentTime now m s =
     (if \<not> active s (run c) then (s, None)
      else if audio m = None \<or> audio m = Some [] then (onmessage_rest now m s, None)
      else
        let s1 = s\<lparr> aiSpeaking := True,
                    nextStartTimeRef := max (nextStartTimeRef s) currentTime \<rparr>
        in (s1, decodeChunk (the (audio m))))"

text \<open>
  The continuation of \<^verbatim>\<open>onmessage\<close> after the \<^verbatim>\<open>await\<close>: the source node is created on
  the closure's output context, started at the cursor and added to the set; the cursor
  advances by the buffer's duration. The continuation does not read \<^verbatim>\<open>active\<close>.
\<close>

definition onmessage_decoded ::
    "Callbacks \<Rightarrow> AudioBuffer \<Rightarrow> nat \<Rightarrow> LiveServerMessage \<Rightarrow> LiveSession \<Rightarrow> LiveSession" where
  "onmessage_decoded c audioBuffer now m s =
     onmessage_rest now m
       (s\<lparr> nodes := nodes s @ [\<lparr> node_ctx = outputCtx c, buffer = audioBuffer,
                                 startTime = nextStartTimeRef s, stopped = False \<rparr>],
           nextStartTimeRef := nextStartTimeRef s + duration audioBuffer,
           sourcesRef := sourcesRef s @ [length (nodes s)] \<rparr>)"

text \<open>A message handled with nothing else running between the two halves.\<close>

definition onmessage_run ::
    "Callbacks \<Rightarrow> real \<Rightarrow> nat \<Rightarrow> LiveServerMessage \<Rightarrow> LiveSession \<Rightarrow> LiveSession" where
  "onmessage_run c currentTime now m s =
     (case onmessage c currentTime now m s of
        (s1, None) \<Rightarrow> s1
      | (s1, Some audioBuffer) \<Rightarrow> onmessage_decoded c audioBuffer now m s1)"


definition onclose :: "Callbacks \<Rightarrow> LiveSession \<Rightarrow> LiveSession" where
  "onclose c s =
     (if active s (run c) then (addLog ''Session Closed'' s)\<lparr> status := DISCONNECTED \<rparr>
      else s)"

definition onerror :: "Callbacks \<Rightarrow> string \<Rightarrow> LiveSession \<Rightarrow> LiveSession" where
  "onerror c message s =
     (if active s (run c) then
        s\<lparr> errorMsg := Some (''Connection Error: ''
                               @ (if message = [] then ''Unknown error'' else message)),
           status := ERROR \<rparr>
      else s)"

subsection \<open>The earlier revision of the component\<close>

text \<open>
  The other copy of \<^verbatim>\<open>LiveSession.tsx\<close> has no transcript, no retry and no
  \<^verbatim>\<open>isMutedRef\<close>: its \<^verbatim>\<open>onaudioprocess\<close> reads the \<^verbatim>\<open>isMuted\<close> of the render that ran
  the effect, and \<^verbatim>\<open>isMuted\<close> is a dependency of the session effect.
\<close>

definition startSession_v1 :: "Env \<Rightarrow> nat \<Rightarrow> LiveSession \<Rightarrow> LiveSession \<times> Callbacks option" where
  "startSession_v1 env k s0 =
     (if \<not> API_KEY env then (setupFailed ''API Key not found in environment.'' s0, None)
      else
        let s1 = addLog ''Initializing Audio Contexts...'' (s0\<lparr> status := CONNECTING \<rparr>)
        in case audioContextError env of
             Some message \<Rightarrow> (setupFailed message s1, None)
           | None \<Rightarrow>
               (let i = contexts s1;
                    s2 = s1\<lparr> contexts := i + 2, inputAudioContextRef := Some i,
                             outputAudioContextRef := Some (i + 1) \<rparr>
                in (addLog ''Requesting Microphone...'' s2,
                    Some \<lparr> run = k, inputCtx = i, outputCtx = i + 1,
                           capturedMuted = isMuted s0 \<rparr>)))"

definition effect_run_v1 :: "Env \<Rightarrow> LiveSession \<Rightarrow> LiveSession \<times> Callbacks option" where
  "effect_run_v1 env s =
     startSession_v1 env (runs s) (s\<lparr> runs := runs s + 1, active := (active s)(runs s := True) \<rparr>)"

definition onaudioprocess_v1 :: "Callbacks \<Rightarrow> real list \<Rightarrow> LiveSession \<Rightarrow> LiveSession" where
  "onaudioprocess_v1 c inputData s =
     (if capturedMuted c \<or> \<not> active s (run c) then s
      else
        let rms = sqrt (foldl (\<lambda>sum x. sum + x * x) 0 inputData / real (length inputData));
            s1 = (if rms > 0.02 then s\<lparr> userSpeaking := True \<rparr> else s);
            pcmBlob = createBlob inputData
        in case sessionPromiseRef s1 of
             None \<Rightarrow> s1
           | Some ch \<Rightarrow> s1\<lparr> sent := sent s1 @ [(ch, pcmBlob)] \<rparr>)"

definition clickMute_v1 :: "Env \<Rightarrow> LiveSession \<Rightarrow> LiveSession \<times> Callbacks option" where
  "clickMute_v1 env s = effect_run_v1 env (effect_cleanup (current_run s) (toggleMute s))"

subsection \<open>Runs of events\<close>

text \<open>A message whose audio part, if any, decodes: the handler is not aborted.\<close>

definition audio_ok :: "LiveServerMessage \<Rightarrow> bool" where
  "audio_ok m =
     (case audio m of
        None \<Rightarrow> True
      | Some b \<Rightarrow> b = [] \<or> decodeChunk b \<noteq> None)"

text \<open>
  Inbound messages handled one after another: each arrival is the output clock, the
  wall-clock date and the message.
\<close>

definition receive ::
    "Callbacks \<Rightarrow> (real \<times> nat \<times> LiveServerMessage) list \<Rightarrow> LiveSession \<Rightarrow> LiveSession" where
  "receive c arrivals s = foldl (\<lambda>s (t, now, m). onmessage_run c t now m s) s arrivals"

text \<open>The source nodes created between two states.\<close>

definition scheduled :: "LiveSession \<Rightarrow> LiveSession \<Rightarrow> SourceNode list" where
  "scheduled s s' = drop (length (nodes s)) (nodes s')"

text \<open>Captured blocks and clicks on the mute button, handled one after another.\<close>

datatype CaptureEvent = Block "real list" | MuteClick

fun captureStep :: "Callbacks \<Rightarrow> nat \<Rightarrow> LiveSession \<Rightarrow> CaptureEvent \<Rightarrow> LiveSession" where
  "captureStep c now s (Block inputData) = onaudioprocess c inputData s"
| "captureStep c now s MuteClick = clickMute now s"

definition capture :: "Callbacks \<Rightarrow> nat \<Rightarrow> CaptureEvent list \<Rightarrow> LiveSession \<Rightarrow> LiveSession" where
  "capture c now evs s = foldl (captureStep c now) s evs"

text \<open>
  The blocks the specification wants transmitted: those that arrive while the mute flag
  is clear, in their order.
\<close>

fun transmitted :: "bool \<Rightarrow> CaptureEvent list \<Rightarrow> real list list" where
  "transmitted muted [] = []"
| "transmitted muted (Block inputData # evs) =
     (if muted then [] else [inputData]) @ transmitted muted evs"
| "transmitted muted (MuteClick # evs) = transmitted (\<not> muted) evs"

subsection \<open>The state machine of the specification\<close>

text \<open>
  The session states and the allowed transitions as the specification words them; a
  transition is tagged by whether it answers a retry request.
\<close>

datatype SessionState = Idle | Connecting | Connected | Disconnected | Errored



subsection \<open>Example states and messages\<close>

definition env_ok :: Env where
  "env_ok = \<lparr> API_KEY = True, audioContextError = None \<rparr>"

definition cb0 :: Callbacks where
  "cb0 = \<lparr> run = 0, inputCtx = 0, outputCtx = 1, capturedMuted = False \<rparr>"

text \<open>The component mounted, the microphone granted, the channel not yet open.\<close>

definition session_connecting :: LiveSession where
  "session_connecting = startSession_resume Granted None (fst (effect_run env_ok initial))"

text \<open>The same, with the channel open.\<close>

definition session_open :: LiveSession where
  "session_open = onopen cb0 session_connecting"

definition no_message :: LiveServerMessage where
  "no_message =
     \<lparr> audio = None, inputTranscription = None, outputTranscription = None,
       turnComplete = False, interrupted = False \<rparr>"

definition turn_message :: LiveServerMessage where
  "turn_message = no_message\<lparr> turnComplete := True \<rparr>"

definition interrupted_message :: LiveServerMessage where
  "interrupted_message = no_message\<lparr> interrupted := True \<rparr>"

text \<open>The end of a turn with an audio part of one byte, which is no 16-bit sample.\<close>

definition undecodable_turn_message :: LiveServerMessage where
  "undecodable_turn_message = turn_message\<lparr> audio := Some ''AA=='' \<rparr>"

text \<open>A message with one audio frame of silence.\<close>

definition chunk_message :: LiveServerMessage where
  "chunk_message = no_message\<lparr> audio := Some ''AAA='' \<rparr>"

text \<open>Both accumulators hold text.\<close>

definition both_buffered :: LiveSession where
  "both_buffered =
     onmessage_run cb0 0 0
       (no_message\<lparr> inputTranscription := Some ''Hi '', outputTranscription := Some ''Hello!'' \<rparr>)
       session_open"

text \<open>The user accumulator holds a blank, the assistant accumulator holds text.\<close>

definition blank_user :: LiveSession where
  "blank_user =
     onmessage_run cb0 0 0
       (no_message\<lparr> inputTranscription := Some '' '', outputTranscription := Some ''Hello!'' \<rparr>)
       session_open"

text \<open>The assistant accumulator holds a blank.\<close>

definition blank_assistant :: LiveSession where
  "blank_assistant =
     onmessage_run cb0 0 0 (no_message\<lparr> outputTranscription := Some '' '' \<rparr>) session_open"

text \<open>One unit is playing and the assistant accumulator holds text.\<close>

definition speaking :: LiveSession where
  "speaking =
     onmessage_run cb0 0 0 (chunk_message\<lparr> outputTranscription := Some ''Hello'' \<rparr>) session_open"

text \<open>The earlier revision mounted, the microphone granted, the channel open.\<close>

definition session_open_v1 :: LiveSession where
  "session_open_v1 =
     onopen cb0 (startSession_resume Granted None (fst (effect_run_v1 env_ok initial)))"

text \<open>
  A message with audio, a transcript fragment and the end of the turn; the session it
  reaches an open session in, torn down while the decode is pending; and the state the
  completion of the decode leaves.
\<close>

definition late_message :: LiveServerMessage where
  "late_message = chunk_message\<lparr> outputTranscription := Some ''Hello'', turnComplete := True \<rparr>"

definition torn_down :: LiveSession where
  "torn_down = effect_cleanup 0 (fst (onmessage cb0 0 7 late_message session_open))"

definition late_completion :: LiveSession where
  "late_completion =
     onmessage_decoded cb0 (the (snd (onmessage cb0 0 7 late_message session_open))) 7
       late_message torn_down"

text \<open>
  A session attempt waiting for the microphone, torn down while it waits, and the state
  the grant that arrives afterwards leaves.
\<close>

definition session_waiting :: LiveSession where
  "session_waiting = fst (effect_run env_ok initial)"

definition closed_while_waiting :: LiveSession where
  "closed_while_waiting = effect_cleanup 0 session_waiting"

definition late_grant :: LiveSession where
  "late_grant = startSession_resume Granted None closed_while_waiting"

text \<open>A first attempt that failed for want of a credential, and the session closed by the peer
  before it opened.\<close>

definition env_no_key :: Env where
  "env_no_key = \<lparr> API_KEY = False, audioContextError = None \<rparr>"

definition session_failed :: LiveSession where
  "session_failed = fst (effect_run env_no_key initial)"

text \<open>An open session whose channel reported an error.\<close>

definition session_errored :: LiveSession where
  "session_errored = onerror cb0 ''socket failed'' session_open"

text \<open>The error banner shows this message, with the retry button.\<close>

definition shows_error :: "string \<Rightarrow> LiveSession \<Rightarrow> bool" where
  "shows_error message s =
     (status s = ERROR \<and> errorMsg s = Some message
      \<and> errorBanner s = Some (Some message) \<and> retryOffered s)"

subsection \<open>Auxiliary predicates\<close>

text \<open>A message that carries audio which decodes.\<close>

definition audio_chunk :: "LiveServerMessage \<Rightarrow> bool" where
  "audio_chunk m =
     (case audio m of
        None \<Rightarrow> False
      | Some b \<Rightarrow> b \<noteq> [] \<and> decodeChunk b \<noteq> None)"

text \<open>
  The schedule of a run of chunks, computed from the cursor, the output context and the
  arrival clock and buffer of each chunk.
\<close>

fun plan :: "real \<Rightarrow> nat \<Rightarrow> (real \<times> AudioBuffer) list \<Rightarrow> SourceNode list" where
  "plan cursor ctx [] = []"
| "plan cursor ctx ((t, buf) # rest) =
     \<lparr> node_ctx = ctx, buffer = buf, startTime = max cursor t, stopped = False \<rparr>
       # plan (max cursor t + duration buf) ctx rest"

definition chunk_of :: "real \<times> nat \<times> LiveServerMessage \<Rightarrow> real \<times> AudioBuffer" where
  "chunk_of a = (fst a, the (decodeChunk (the (audio (snd (snd a))))))"


text \<open>Two states that agree on the transcript: accumulators, live captions, history.\<close>

definition same_transcript :: "LiveSession \<Rightarrow> LiveSession \<Rightarrow> bool" where
  "same_transcript s s' =
     (inputBufferRef s' = inputBufferRef s \<and> outputBufferRef s' = outputBufferRef s
      \<and> realtimeInput s' = realtimeInput s \<and> realtimeOutput s' = realtimeOutput s
      \<and> history s' = history s \<and> historyUpdates s' = historyUpdates s)"

section \<open>Properties\<close>

subsection \<open>The diagnostics log\<close>

text \<open>
  Claim C10. After every call of \<^verbatim>\<open>addLog\<close> the log holds at most five entries, its last
  entry is the message just appended, and the entries before it are the (at most four)
  most recent entries of the log before the call, in their order: the oldest are the
  ones discarded.
\<close>

theorem addLog_bounded:
  "length (logs (addLog msg s)) = min 4 (length (logs s)) + 1
   \<and> length (logs (addLog msg s)) \<le> 5
   \<and> last (logs (addLog msg s)) = msg
   \<and> rev (butlast (logs (addLog msg s))) = take 4 (rev (logs s))"
  by (simp add: addLog_def rev_drop min_def)

subsection \<open>Evaluating the example states\<close>

lemmas setup_defs = effect_run_def startSession_def startSession_resume_def env_ok_def
  initial_def addLog_def cb0_def Let_def

lemma session_open_state:
  "session_open =
     \<lparr> status = CONNECTED, isMuted = False, errorMsg = None,
       logs = [''Initializing Audio Contexts...'', ''Requesting Microphone...'',
               ''Connecting to Gemini Live API...'', ''Session Connected!''],
       aiSpeaking = False, userSpeaking = False, retryTrigger = 0,
       history = [], historyUpdates = [SetHistory []], realtimeInput = [],
       realtimeOutput = [], inputAudioContextRef = Some 0,
       outputAudioContextRef = Some 1, mediaStreamRef = Some 0,
       isMutedRef = False, nextStartTimeRef = 0, sourcesRef = [],
       inputBufferRef = [], outputBufferRef = [],
       sessionPromiseRef = Some 0, active = (\<lambda>k. False)(0 := True),
       runs = 1, contexts = 2, closedContexts = [],
       streams = 1, stoppedStreams = [], channels = 1,
       closedChannels = [], nodes = [], sent = [] \<rparr>"
  by (simp add: session_open_def onopen_def session_connecting_def setup_defs)

lemma decodeChunk_silence:
  "decodeChunk ''AAA='' =
     Some \<lparr> numberOfChannels = 1, frames = 1, sampleRate = 24000, channelData = [[0]] \<rparr>"
  by (simp add: decodeChunk_def decode_def atob_def ascii_whitespace_def strip_padding_def
      b64_index_def decodeAudioData_def Let_def)

lemmas message_defs = onmessage_run_def onmessage_def onmessage_decoded_def onmessage_rest_def
  transcribe_def commitTurn_def interrupt_def stop_sources_def stop_node_def render_def
  no_message_def turn_message_def interrupted_message_def chunk_message_def
  trim_def js_whitespace_def duration_def audio_ok_def decodeChunk_silence

lemmas example_defs = both_buffered_def blank_user_def blank_assistant_def speaking_def
  session_open_state addLog_def cb0_def

subsection \<open>Transcript assembly\<close>

lemma foldl_applyUpdate_AppendTurns:
  "foldl (applyUpdate ob now) h (q @ map AppendTurn ms) = foldl (applyUpdate ob now) h q @ ms"
  by (induction ms arbitrary: q rule: rev_induct) (simp_all flip: append_assoc)

lemma commitTurn_updates:
  "historyUpdates (commitTurn now s) =
     historyUpdates s
       @ map AppendTurn
           ((if trim (inputBufferRef s) \<noteq> [] then
               [\<lparr> role = User, msg_text = trim (inputBufferRef s), timestamp = now \<rparr>] else [])
            @ (if trim (outputBufferRef s) \<noteq> [] then
               [\<lparr> role = Assistant, msg_text = trim (outputBufferRef s), timestamp = now \<rparr>] else []))"
  by (simp add: commitTurn_def Let_def)

lemma commitTurn_buffers:
  "inputBufferRef (commitTurn now s) = [] \<and> outputBufferRef (commitTurn now s) = []
   \<and> realtimeInput (commitTurn now s) = [] \<and> realtimeOutput (commitTurn now s) = []"
  by (simp add: commitTurn_def Let_def)

lemma commitTurn_history: "history (commitTurn now s) = history s"
  by (simp add: commitTurn_def Let_def)

lemma interrupt_playback:
  "sourcesRef (interrupt s) = []
   \<and> nodes (interrupt s) = fold stop_node (sourcesRef s) (nodes s)
   \<and> nextStartTimeRef (interrupt s) = 0 \<and> \<not> aiSpeaking (interrupt s)"
  by (simp add: interrupt_def Let_def stop_sources_def addLog_def)

lemma interrupt_transcript:
  "outputBufferRef (interrupt s) = [] \<and> realtimeOutput (interrupt s) = []
   \<and> inputBufferRef (interrupt s) = inputBufferRef s
   \<and> realtimeInput (interrupt s) = realtimeInput s
   \<and> history (interrupt s) = history s
   \<and> historyUpdates (interrupt s) =
       historyUpdates s @ (if trim (outputBufferRef s) \<noteq> [] then [AppendInterrupted] else [])"
  by (simp add: interrupt_def Let_def stop_sources_def addLog_def)

lemma trim_Nil: "trim [] = []"
  by (simp add: trim_def)

lemma trim_no_break_space: "trim [char_of (160 :: nat), CHR ''a'', char_of (160 :: nat)] = ''a''"
  by (simp add: trim_def js_whitespace_def)

text \<open>The audio branch of \<^verbatim>\<open>onmessage\<close> leaves the transcript state alone.\<close>

lemma onmessage_run_rest:
  assumes "active s (run c)" and "audio_ok m"
  shows "\<exists>s'. onmessage_run c t now m s = onmessage_rest now m s' \<and> same_transcript s s'"
proof (cases "audio m = None \<or> audio m = Some []")
  case True
  with assms(1) have "onmessage_run c t now m s = onmessage_rest now m s"
    by (auto simp: onmessage_run_def onmessage_def)
  then show ?thesis by (auto simp: same_transcript_def)
next
  case False
  then obtain b where b: "audio m = Some b" "b \<noteq> []" by auto
  with assms(2) obtain buf where buf: "decodeChunk b = Some buf"
    by (auto simp: audio_ok_def)
  show ?thesis
    using assms(1) b buf
    by (simp add: onmessage_run_def onmessage_def onmessage_decoded_def same_transcript_def Let_def)
      (rule exI, rule conjI, rule refl, simp)
qed

lemma transcribe_same:
  "same_transcript s s' \<Longrightarrow> same_transcript (transcribe m s) (transcribe m s')"
  by (auto simp: same_transcript_def transcribe_def Let_def split: option.splits)

text \<open>
  Claim C4, as amended. A \<^verbatim>\<open>turnComplete\<close> message handled while the session is active
  (and whose audio part, if any, decodes) appends to the history one user turn when the
  user accumulator holds more than whitespace, then one assistant turn when the
  assistant accumulator holds more than whitespace, and nothing else; the turns carry the
  trimmed accumulators and the same timestamp, and both accumulators and both live
  captions are empty afterwards. The accumulators are read after the fragments of the
  same message have been added; the history is read at the next render.
\<close>

theorem turnComplete_commits:
  assumes "active s (run c)" and "turnComplete m" and "audio_ok m"
  shows "let s1 = onmessage_run c t now m s;
             userText = trim (inputBufferRef (transcribe m s));
             aiText = trim (outputBufferRef (transcribe m s))
         in history (render later s1) =
              foldl (applyUpdate [] later) (history s) (historyUpdates s)
                @ (if userText \<noteq> [] then
                     [\<lparr> role = User, msg_text = userText, timestamp = now \<rparr>] else [])
                @ (if aiText \<noteq> [] then
                     [\<lparr> role = Assistant, msg_text = aiText, timestamp = now \<rparr>] else [])
            \<and> inputBufferRef s1 = [] \<and> outputBufferRef s1 = []
            \<and> realtimeInput s1 = [] \<and> realtimeOutput s1 = []"
proof -
  obtain s' where run: "onmessage_run c t now m s = onmessage_rest now m s'"
    and same: "same_transcript s s'"
    using onmessage_run_rest [OF assms(1,3)] by blast
  define s2 where "s2 = commitTurn now (transcribe m s')"
  have tr: "same_transcript (transcribe m s) (transcribe m s')"
    by (rule transcribe_same [OF same])
  have hist: "history (transcribe m s') = history s"
    and upd: "historyUpdates (transcribe m s') = historyUpdates s"
    by (simp_all add: transcribe_def Let_def same [unfolded same_transcript_def]
        split: option.splits)
  have ob: "trim (outputBufferRef s2) = []"
    by (simp add: s2_def commitTurn_buffers trim_Nil)
  have rest: "onmessage_rest now m s' = (if interrupted m then interrupt s2 else s2)"
    using assms(2) by (simp add: onmessage_rest_def s2_def Let_def)
  have fields: "historyUpdates (onmessage_rest now m s') = historyUpdates s2
      \<and> history (onmessage_rest now m s') = history s2
      \<and> inputBufferRef (onmessage_rest now m s') = []
      \<and> outputBufferRef (onmessage_rest now m s') = []
      \<and> realtimeInput (onmessage_rest now m s') = []
      \<and> realtimeOutput (onmessage_rest now m s') = []"
    using ob commitTurn_buffers [of now "transcribe m s'"]
    by (simp add: rest s2_def interrupt_transcript)
  show ?thesis
    using fields tr
    by (simp add: run render_def Let_def s2_def commitTurn_updates commitTurn_history hist upd
        same_transcript_def foldl_applyUpdate_AppendTurns)
qed

theorem turnComplete_commits_witness:
  "history (render 9 (onmessage_run cb0 0 7 turn_message both_buffered)) =
     [\<lparr> role = User, msg_text = ''Hi'', timestamp = 7 \<rparr>,
      \<lparr> role = Assistant, msg_text = ''Hello!'', timestamp = 7 \<rparr>]
   \<and> inputBufferRef (onmessage_run cb0 0 7 turn_message both_buffered) = []
   \<and> outputBufferRef (onmessage_run cb0 0 7 turn_message both_buffered) = []"
proof -
  have h1: "active both_buffered (run cb0)"
    by (simp add: example_defs message_defs)
  have h2: "turnComplete turn_message"
    by (simp add: message_defs)
  have h3: "audio_ok turn_message"
    by (simp add: message_defs)
  have buf: "inputBufferRef both_buffered = ''Hi '' \<and> outputBufferRef both_buffered = ''Hello!''
      \<and> history both_buffered = [] \<and> historyUpdates both_buffered = [SetHistory []]"
    by (simp add: example_defs message_defs)
  show ?thesis
    using turnComplete_commits [OF h1 h2 h3, where t = 0 and now = 7 and later = 9] buf
    by (simp add: Let_def transcribe_def turn_message_def no_message_def trim_def
        js_whitespace_def)
qed

text \<open>
  The claim as stated fails: with a blank in the user accumulator (which is not empty)
  and text in the assistant accumulator, one turn is appended, not two.
\<close>

theorem turnComplete_counterexample:
  "inputBufferRef blank_user \<noteq> [] \<and> outputBufferRef blank_user \<noteq> []
   \<and> history (render 9 blank_user) = []
   \<and> history (render 9 (onmessage_run cb0 0 7 turn_message blank_user)) =
       [\<lparr> role = Assistant, msg_text = ''Hello!'', timestamp = 7 \<rparr>]"
  by (simp add: example_defs message_defs)

lemma decodeChunk_odd: "decodeChunk ''AA=='' = None"
  by (simp add: decodeChunk_def decode_def atob_def ascii_whitespace_def strip_padding_def
      b64_index_def decodeAudioData_def Let_def)

text \<open>
  With an audio part that does not decode the handler is aborted before it reaches the
  \<^verbatim>\<open>turnComplete\<close> branch: nothing is committed and the accumulators keep their text.
\<close>

lemma turnComplete_undecodable_audio:
  "turnComplete undecodable_turn_message \<and> \<not> audio_ok undecodable_turn_message
   \<and> inputBufferRef both_buffered = ''Hi '' \<and> outputBufferRef both_buffered = ''Hello!''
   \<and> history (render 9 (onmessage_run cb0 0 7 undecodable_turn_message both_buffered)) = []
   \<and> inputBufferRef (onmessage_run cb0 0 7 undecodable_turn_message both_buffered) = ''Hi ''
   \<and> outputBufferRef (onmessage_run cb0 0 7 undecodable_turn_message both_buffered) = ''Hello!''"
  by (simp add: undecodable_turn_message_def decodeChunk_odd example_defs message_defs)

subsection \<open>Interruption\<close>

lemma length_fold_stop_node: "length (fold stop_node ks ns) = length ns"
  by (induction ks arbitrary: ns) (simp_all add: stop_node_def)

lemma stopped_fold_stop_node:
  "k < length ns \<Longrightarrow>
     stopped (fold stop_node ks ns ! k) = (stopped (ns ! k) \<or> k \<in> set ks)"
proof (induction ks arbitrary: ns)
  case Nil
  then show ?case by simp
next
  case (Cons j ks)
  have len: "k < length (stop_node j ns)"
    using Cons.prems by (simp add: stop_node_def)
  have "stopped (stop_node j ns ! k) = (stopped (ns ! k) \<or> k = j)"
    using Cons.prems by (auto simp: stop_node_def nth_list_update)
  with Cons.IH [OF len] show ?case by auto
qed

lemma transcribe_playback:
  "nodes (transcribe m s) = nodes s \<and> sourcesRef (transcribe m s) = sourcesRef s"
  by (simp add: transcribe_def Let_def split: option.splits)

lemma commitTurn_playback:
  "nodes (commitTurn now s) = nodes s \<and> sourcesRef (commitTurn now s) = sourcesRef s"
  by (simp add: commitTurn_def Let_def)

lemma commitTurn_same:
  "same_transcript s s' \<Longrightarrow> same_transcript (commitTurn now s) (commitTurn now s')"
  by (simp add: same_transcript_def commitTurn_def Let_def)

text \<open>What the audio branch of \<^verbatim>\<open>onmessage\<close> leaves when the audio decodes.\<close>

lemma onmessage_run_audio:
  assumes "active s (run c)" and "audio_ok m"
  shows "\<exists>s'. onmessage_run c t now m s = onmessage_rest now m s' \<and> same_transcript s s'
     \<and> (if audio_chunk m
         then (\<exists>node. nodes s' = nodes s @ [node])
              \<and> sourcesRef s' = sourcesRef s @ [length (nodes s)]
         else nodes s' = nodes s \<and> sourcesRef s' = sourcesRef s)"
proof (cases "audio m = None \<or> audio m = Some []")
  case True
  with assms(1) have "onmessage_run c t now m s = onmessage_rest now m s"
    by (auto simp: onmessage_run_def onmessage_def)
  moreover have "\<not> audio_chunk m"
    using True by (auto simp: audio_chunk_def)
  ultimately show ?thesis by (auto simp: same_transcript_def)
next
  case False
  then obtain b where b: "audio m = Some b" "b \<noteq> []" by auto
  with assms(2) obtain buf where buf: "decodeChunk b = Some buf"
    by (auto simp: audio_ok_def)
  have chunk: "audio_chunk m"
    using b buf by (simp add: audio_chunk_def)
  let ?s' = "s\<lparr> aiSpeaking := True,
      nodes := nodes s @ [\<lparr> node_ctx = outputCtx c, buffer = buf,
                               startTime = max (nextStartTimeRef s) t, stopped = False \<rparr>],
      nextStartTimeRef := max (nextStartTimeRef s) t + duration buf,
      sourcesRef := sourcesRef s @ [length (nodes s)] \<rparr>"
  have "onmessage_run c t now m s = onmessage_rest now m ?s'"
    using assms(1) b buf
    by (simp add: onmessage_run_def onmessage_def onmessage_decoded_def Let_def)
  moreover have "same_transcript s ?s'"
    by (simp add: same_transcript_def)
  ultimately show ?thesis
    using chunk by (intro exI [of _ ?s']) simp
qed

text \<open>
  Claim C3, as amended. An \<^verbatim>\<open>interrupted\<close> message handled while the session is
  active (and whose audio part, if any, decodes) stops every unit of the active set, and
  the unit the same message has just scheduled, and no other; it empties the set, resets
  the cursor and clears the speaking flag; when the assistant accumulator holds more than
  white space, exactly one assistant turn is appended to the history at the next render,
  and its text ends with the ellipsis marker; otherwise none is appended; the assistant
  accumulator and its live caption are cleared; the user accumulator and its caption are
  left as they are. \<open>s0\<close> is the transcript state the earlier branches of the same handler
  leave.
\<close>

theorem interrupted_flushes:
  assumes "active s (run c)" and "interrupted m" and "audio_ok m"
  shows "let s0 = (if turnComplete m then commitTurn now (transcribe m s) else transcribe m s);
             s1 = onmessage_run c t now m s
         in sourcesRef s1 = []
            \<and> length (nodes s1) = length (nodes s) + (if audio_chunk m then 1 else 0)
            \<and> (\<forall>k < length (nodes s).
                  stopped (nodes s1 ! k) = (stopped (nodes s ! k) \<or> k \<in> set (sourcesRef s)))
            \<and> (\<forall>k < length (nodes s1). length (nodes s) \<le> k \<longrightarrow> stopped (nodes s1 ! k))
            \<and> nextStartTimeRef s1 = 0 \<and> \<not> aiSpeaking s1
            \<and> outputBufferRef s1 = [] \<and> realtimeOutput s1 = []
            \<and> inputBufferRef s1 = inputBufferRef s0 \<and> realtimeInput s1 = realtimeInput s0
            \<and> (\<exists>txt. history (render later s1) =
                  foldl (applyUpdate [] later) (history s0) (historyUpdates s0)
                    @ (if trim (outputBufferRef s0) \<noteq> [] then
                         [\<lparr> role = Assistant, msg_text = txt @ ''...'', timestamp = later \<rparr>]
                       else []))"
proof -
  define pre where
    "pre = (\<lambda>x. if turnComplete m then commitTurn now (transcribe m x) else transcribe m x)"
  obtain s' where run': "onmessage_run c t now m s = onmessage_rest now m s'"
    and same: "same_transcript s s'"
    and audio: "if audio_chunk m
         then (\<exists>node. nodes s' = nodes s @ [node])
              \<and> sourcesRef s' = sourcesRef s @ [length (nodes s)]
         else nodes s' = nodes s \<and> sourcesRef s' = sourcesRef s"
    using onmessage_run_audio [OF assms(1,3)] by blast
  have run: "onmessage_run c t now m s = interrupt (pre s')"
    using assms(2) by (simp add: run' onmessage_rest_def pre_def Let_def)
  have pre_same: "same_transcript (pre s) (pre s')"
    using same by (simp add: pre_def transcribe_same commitTurn_same)
  have pre_play: "nodes (pre s') = nodes s' \<and> sourcesRef (pre s') = sourcesRef s'"
    by (simp add: pre_def transcribe_playback commitTurn_playback)
  have hist: "history (render later (interrupt (pre s'))) =
      foldl (applyUpdate [] later) (history (pre s)) (historyUpdates (pre s))
        @ (if trim (outputBufferRef (pre s)) \<noteq> [] then
             [\<lparr> role = Assistant, msg_text = trim [] @ ''...'', timestamp = later \<rparr>]
           else [])"
    using pre_same by (simp add: render_def interrupt_transcript same_transcript_def)
  have bufs: "inputBufferRef (interrupt (pre s')) = inputBufferRef (pre s)
      \<and> realtimeInput (interrupt (pre s')) = realtimeInput (pre s)"
    using pre_same by (simp add: interrupt_transcript same_transcript_def)
  have len: "length (nodes (interrupt (pre s'))) =
      length (nodes s) + (if audio_chunk m then 1 else 0)"
    using audio by (auto simp: interrupt_playback length_fold_stop_node pre_play split: if_splits)
  have old: "stopped (nodes (interrupt (pre s')) ! k) =
      (stopped (nodes s ! k) \<or> k \<in> set (sourcesRef s))" if "k < length (nodes s)" for k
  proof -
    have "k < length (nodes s')"
      using audio that by (auto split: if_splits)
    moreover have "nodes s' ! k = nodes s ! k"
      using audio that by (auto simp: nth_append split: if_splits)
    moreover have "k \<in> set (sourcesRef s') \<longleftrightarrow> k \<in> set (sourcesRef s)"
      using audio that by (auto split: if_splits)
    ultimately show ?thesis
      by (simp add: interrupt_playback pre_play stopped_fold_stop_node)
  qed
  have new: "stopped (nodes (interrupt (pre s')) ! k)"
    if "k < length (nodes (interrupt (pre s')))" "length (nodes s) \<le> k" for k
  proof -
    have chunk: "audio_chunk m" and k: "k = length (nodes s)"
      using that len by (auto split: if_splits)
    then have "k < length (nodes s')" "k \<in> set (sourcesRef s')"
      using audio by auto
    then show ?thesis
      by (simp add: interrupt_playback pre_play stopped_fold_stop_node)
  qed
  show ?thesis
    unfolding Let_def pre_def [symmetric, THEN fun_cong] run
    using hist bufs len old new
    by (simp add: interrupt_playback interrupt_transcript del: append.simps)
qed

theorem interrupted_flushes_witness:
  "sourcesRef speaking = [0] \<and> \<not> stopped (nodes speaking ! 0)
   \<and> sourcesRef (onmessage_run cb0 1 7 interrupted_message speaking) = []
   \<and> stopped (nodes (onmessage_run cb0 1 7 interrupted_message speaking) ! 0)
   \<and> nextStartTimeRef (onmessage_run cb0 1 7 interrupted_message speaking) = 0
   \<and> (\<exists>txt. history (render 9 (onmessage_run cb0 1 7 interrupted_message speaking)) =
         [\<lparr> role = Assistant, msg_text = txt @ ''...'', timestamp = 9 \<rparr>])"
proof -
  have h1: "active speaking (run cb0)"
    by (simp add: example_defs message_defs)
  have h2: "interrupted interrupted_message"
    by (simp add: message_defs)
  have h3: "audio_ok interrupted_message"
    by (simp add: message_defs)
  have st: "sourcesRef speaking = [0] \<and> length (nodes speaking) = 1
      \<and> \<not> stopped (nodes speaking ! 0) \<and> outputBufferRef speaking = ''Hello''
      \<and> history speaking = [] \<and> historyUpdates speaking = [SetHistory []]"
    by (simp add: example_defs message_defs)
  show ?thesis
    using interrupted_flushes [OF h1 h2 h3, where t = 1 and now = 7 and later = 9] st
    by (simp add: Let_def transcribe_def interrupted_message_def no_message_def trim_def
        js_whitespace_def)
qed

text \<open>
  The claim as stated fails: a blank in the assistant accumulator (which is not empty)
  is not committed.
\<close>

theorem interrupted_counterexample:
  "outputBufferRef blank_assistant \<noteq> []
   \<and> history (render 9 blank_assistant) = []
   \<and> history (render 9 (onmessage_run cb0 0 7 interrupted_message blank_assistant)) = []"
  by (simp add: example_defs message_defs)

text \<open>
  The text of the turn committed on interruption. The updater passed to \<^verbatim>\<open>setHistory\<close>
  reads \<^verbatim>\<open>outputBufferRef.current\<close> when React runs it, after the handler has cleared
  the buffer: the committed text is the bare marker, here for the accumulator \<open>Hello\<close>.
\<close>

lemma interrupted_commit_text:
  "outputBufferRef speaking = ''Hello''
   \<and> history (render 9 (onmessage_run cb0 1 7 interrupted_message speaking)) =
       [\<lparr> role = Assistant, msg_text = ''...'', timestamp = 9 \<rparr>]"
  by (simp add: example_defs message_defs)

subsection \<open>Playback scheduling\<close>

lemma onmessage_rest_playback:
  "\<not> interrupted m \<Longrightarrow>
     nodes (onmessage_rest now m s) = nodes s
     \<and> nextStartTimeRef (onmessage_rest now m s) = nextStartTimeRef s
     \<and> sourcesRef (onmessage_rest now m s) = sourcesRef s
     \<and> active (onmessage_rest now m s) = active s"
  by (simp add: onmessage_rest_def transcribe_def commitTurn_def Let_def split: option.splits)

text \<open>
  A decode that completes: the unit starts at the cursor of that moment, and the cursor
  advances by its duration, whatever ran since the chunk arrived.
\<close>

lemma onmessage_decoded_schedules:
  "\<not> interrupted m \<Longrightarrow>
     nodes (onmessage_decoded c buf now m s) =
       nodes s @ [\<lparr> node_ctx = outputCtx c, buffer = buf,
                    startTime = nextStartTimeRef s, stopped = False \<rparr>]
     \<and> nextStartTimeRef (onmessage_decoded c buf now m s) = nextStartTimeRef s + duration buf
     \<and> sourcesRef (onmessage_decoded c buf now m s) = sourcesRef s @ [length (nodes s)]
     \<and> active (onmessage_decoded c buf now m s) = active s"
  by (simp add: onmessage_decoded_def onmessage_rest_playback)

lemma chunk_of_triple: "chunk_of (t, now, m) = (t, the (decodeChunk (the (audio m))))"
  by (simp add: chunk_of_def)

lemma fst_chunk_of: "fst (chunk_of a) = fst a"
  by (simp add: chunk_of_def)

lemma onmessage_run_chunk:
  assumes "active s (run c)" and "audio_chunk m" and "\<not> interrupted m"
  shows "nodes (onmessage_run c t now m s) = nodes s @ plan (nextStartTimeRef s) (outputCtx c) [chunk_of (t, now, m)]
     \<and> nextStartTimeRef (onmessage_run c t now m s) =
         max (nextStartTimeRef s) t + duration (snd (chunk_of (t, now, m)))
     \<and> active (onmessage_run c t now m s) = active s"
proof -
  obtain b buf where b: "audio m = Some b" "b \<noteq> []" "decodeChunk b = Some buf"
    using assms(2) by (auto simp: audio_chunk_def split: option.splits)
  show ?thesis
    using assms(1,3) b
    by (simp add: onmessage_run_def onmessage_def Let_def onmessage_decoded_schedules
        chunk_of_triple)
qed

lemma receive_plan:
  assumes "active s (run c)"
    and "\<forall>a \<in> set arrivals. audio_chunk (snd (snd a)) \<and> \<not> interrupted (snd (snd a))"
  shows "nodes (receive c arrivals s) =
           nodes s @ plan (nextStartTimeRef s) (outputCtx c) (map chunk_of arrivals)"
  using assms
proof (induction arrivals arbitrary: s)
  case Nil
  then show ?case by (simp add: receive_def)
next
  case (Cons a arrivals)
  obtain t now m where a: "a = (t, now, m)" by (cases a) auto
  let ?s1 = "onmessage_run c t now m s"
  have m: "audio_chunk m" "\<not> interrupted m"
    using Cons.prems(2) a by auto
  have step: "nodes ?s1 = nodes s @ plan (nextStartTimeRef s) (outputCtx c) [chunk_of (t, now, m)]"
    "nextStartTimeRef ?s1 = max (nextStartTimeRef s) t + duration (snd (chunk_of (t, now, m)))"
    "active ?s1 = active s"
    using onmessage_run_chunk [OF Cons.prems(1) m] by auto
  have "nodes (receive c arrivals ?s1) =
      nodes ?s1 @ plan (nextStartTimeRef ?s1) (outputCtx c) (map chunk_of arrivals)"
    using Cons.prems by (intro Cons.IH) (simp_all add: step)
  moreover have "receive c (a # arrivals) s = receive c arrivals ?s1"
    by (simp add: receive_def a)
  ultimately show ?case
    by (simp add: step a chunk_of_triple)
qed

lemma length_plan: "length (plan cursor ctx xs) = length xs"
  by (induction cursor ctx xs rule: plan.induct) simp_all

lemma plan_buffer: "i < length xs \<Longrightarrow> buffer (plan cursor ctx xs ! i) = snd (xs ! i)"
proof (induction cursor ctx xs arbitrary: i rule: plan.induct)
  case (1 cursor ctx)
  then show ?case by simp
next
  case (2 cursor ctx t buf rest)
  then show ?case by (cases i) simp_all
qed

lemma plan_first: "xs \<noteq> [] \<Longrightarrow> startTime (plan cursor ctx xs ! 0) = max cursor (fst (xs ! 0))"
  by (cases xs) auto

lemma plan_consecutive:
  "Suc i < length xs \<Longrightarrow>
     startTime (plan cursor ctx xs ! Suc i) =
       max (startTime (plan cursor ctx xs ! i) + duration (buffer (plan cursor ctx xs ! i)))
           (fst (xs ! Suc i))"
proof (induction cursor ctx xs arbitrary: i rule: plan.induct)
  case (1 cursor ctx)
  then show ?case by simp
next
  case (2 cursor ctx t buf rest)
  show ?case
  proof (cases i)
    case 0
    with "2.prems" obtain t' buf' rest' where "rest = (t', buf') # rest'"
      by (cases rest) auto
    with 0 show ?thesis by simp
  next
    case (Suc j)
    with "2.prems" have "Suc j < length rest" by simp
    from "2.IH" [OF this] Suc show ?thesis by simp
  qed
qed

text \<open>
  Claim C1, as amended. For chunks handled one after another while the session is
  active, with no \<^verbatim>\<open>interrupted\<close> among them, one unit is scheduled per chunk, in
  order; the first starts at the later of the cursor and the output clock at its arrival,
  and unit \<open>i+1\<close> starts at the later of the end of unit \<open>i\<close> (its start plus its duration)
  and the output clock at the arrival of chunk \<open>i+1\<close>. So units never overlap, and they
  are gapless exactly when the next chunk arrives before the previous unit has ended.
\<close>

theorem playback_schedule:
  assumes "active s (run c)"
    and "\<forall>a \<in> set arrivals. audio_chunk (snd (snd a)) \<and> \<not> interrupted (snd (snd a))"
  shows "let units = scheduled s (receive c arrivals s)
         in length units = length arrivals
            \<and> (\<forall>i < length arrivals.
                  Some (buffer (units ! i)) = decodeChunk (the (audio (snd (snd (arrivals ! i))))))
            \<and> (arrivals \<noteq> [] \<longrightarrow>
                  startTime (units ! 0) = max (nextStartTimeRef s) (fst (arrivals ! 0)))
            \<and> (\<forall>i. Suc i < length arrivals \<longrightarrow>
                  startTime (units ! Suc i) =
                    max (startTime (units ! i) + duration (buffer (units ! i)))
                        (fst (arrivals ! Suc i)))"
proof -
  let ?xs = "map chunk_of arrivals"
  have units: "scheduled s (receive c arrivals s) = plan (nextStartTimeRef s) (outputCtx c) ?xs"
    by (simp add: scheduled_def receive_plan [OF assms])
  have buf: "Some (snd (chunk_of (arrivals ! i))) = decodeChunk (the (audio (snd (snd (arrivals ! i)))))"
    if "i < length arrivals" for i
  proof -
    have "audio_chunk (snd (snd (arrivals ! i)))"
      using assms(2) that by (meson nth_mem)
    then show ?thesis
      by (auto simp: audio_chunk_def chunk_of_def split: option.splits)
  qed
  show ?thesis
    unfolding Let_def units
    using plan_consecutive [of _ ?xs "nextStartTimeRef s" "outputCtx c"]
      plan_first [of ?xs "nextStartTimeRef s" "outputCtx c"]
    by (simp add: length_plan plan_buffer buf fst_chunk_of)
qed

theorem playback_schedule_witness:
  "startTime (scheduled session_open
      (receive cb0 [(0, 0, chunk_message), (0, 0, chunk_message)] session_open) ! 1) =
     startTime (scheduled session_open
      (receive cb0 [(0, 0, chunk_message), (0, 0, chunk_message)] session_open) ! 0)
     + duration (buffer (scheduled session_open
      (receive cb0 [(0, 0, chunk_message), (0, 0, chunk_message)] session_open) ! 0))"
proof -
  have h1: "active session_open (run cb0)"
    by (simp add: example_defs)
  have h2: "\<forall>a \<in> set [(0 :: real, 0 :: nat, chunk_message), (0, 0, chunk_message)].
      audio_chunk (snd (snd a)) \<and> \<not> interrupted (snd (snd a))"
    by (simp add: audio_chunk_def message_defs)
  have nonneg: "0 \<le> startTime (scheduled session_open
        (receive cb0 [(0, 0, chunk_message), (0, 0, chunk_message)] session_open) ! 0)
      + duration (buffer (scheduled session_open
        (receive cb0 [(0, 0, chunk_message), (0, 0, chunk_message)] session_open) ! 0))"
    by (simp add: scheduled_def receive_def example_defs message_defs)
  have "\<forall>i. Suc i < 2 \<longrightarrow>
      startTime (scheduled session_open
        (receive cb0 [(0, 0, chunk_message), (0, 0, chunk_message)] session_open) ! Suc i) =
      max (startTime (scheduled session_open
             (receive cb0 [(0, 0, chunk_message), (0, 0, chunk_message)] session_open) ! i)
           + duration (buffer (scheduled session_open
             (receive cb0 [(0, 0, chunk_message), (0, 0, chunk_message)] session_open) ! i)))
          (fst ([(0 :: real, 0 :: nat, chunk_message), (0, 0, chunk_message)] ! Suc i))"
    using playback_schedule [OF h1 h2] by (simp add: Let_def)
  from this [rule_format, of 0] nonneg show ?thesis
    by simp
qed

text \<open>
  The claim as stated fails: when the second chunk arrives after the first unit has
  ended, the second unit starts at the clock, not at the end of the first.
\<close>

theorem playback_gap_counterexample:
  "startTime (scheduled session_open
      (receive cb0 [(0, 0, chunk_message), (2, 0, chunk_message)] session_open) ! 0) = 0
   \<and> duration (buffer (scheduled session_open
      (receive cb0 [(0, 0, chunk_message), (2, 0, chunk_message)] session_open) ! 0)) = 1 / 24000
   \<and> startTime (scheduled session_open
      (receive cb0 [(0, 0, chunk_message), (2, 0, chunk_message)] session_open) ! 1) = 2
   \<and> startTime (scheduled session_open
      (receive cb0 [(0, 0, chunk_message), (2, 0, chunk_message)] session_open) ! 1)
     \<noteq> startTime (scheduled session_open
      (receive cb0 [(0, 0, chunk_message), (2, 0, chunk_message)] session_open) ! 0)
       + duration (buffer (scheduled session_open
      (receive cb0 [(0, 0, chunk_message), (2, 0, chunk_message)] session_open) ! 0))"
  by (simp add: scheduled_def receive_def example_defs message_defs)

subsection \<open>Capture and mute\<close>

lemma onaudioprocess_sent:
  assumes "active s (run c)" and "sessionPromiseRef s = Some ch"
  shows "sent (onaudioprocess c inputData s) =
           sent s @ (if isMutedRef s then [] else [(ch, createBlob inputData)])"
  using assms by (simp add: onaudioprocess_def Let_def)

lemma onaudioprocess_frame:
  "active (onaudioprocess c inputData s) = active s
   \<and> sessionPromiseRef (onaudioprocess c inputData s) = sessionPromiseRef s
   \<and> isMuted (onaudioprocess c inputData s) = isMuted s
   \<and> isMutedRef (onaudioprocess c inputData s) = isMutedRef s"
  by (simp add: onaudioprocess_def Let_def split: option.splits)

text \<open>
  In the revision with \<^verbatim>\<open>isMutedRef\<close>, a click on the mute button changes the flag and
  its ref, and applies the pending history updates as any render does; every other part
  of the state, the channel, the audio devices and the playback scheduler among them, is
  left as it is.
\<close>

lemma clickMute_frame:
  "clickMute now s = (render now s)\<lparr> isMuted := \<not> isMuted s, isMutedRef := \<not> isMuted s \<rparr>"
  by (simp add: clickMute_def toggleMute_def render_def Let_def)

lemma clickMute_fields:
  "sessionPromiseRef (clickMute now s) = sessionPromiseRef s
   \<and> closedChannels (clickMute now s) = closedChannels s
   \<and> channels (clickMute now s) = channels s
   \<and> inputAudioContextRef (clickMute now s) = inputAudioContextRef s
   \<and> outputAudioContextRef (clickMute now s) = outputAudioContextRef s
   \<and> closedContexts (clickMute now s) = closedContexts s
   \<and> contexts (clickMute now s) = contexts s
   \<and> mediaStreamRef (clickMute now s) = mediaStreamRef s
   \<and> stoppedStreams (clickMute now s) = stoppedStreams s
   \<and> status (clickMute now s) = status s
   \<and> active (clickMute now s) = active s
   \<and> runs (clickMute now s) = runs s
   \<and> sourcesRef (clickMute now s) = sourcesRef s
   \<and> nodes (clickMute now s) = nodes s
   \<and> nextStartTimeRef (clickMute now s) = nextStartTimeRef s
   \<and> sent (clickMute now s) = sent s
   \<and> history (clickMute now s) = history (render now s)
   \<and> isMuted (clickMute now s) = (\<not> isMuted s)
   \<and> isMutedRef (clickMute now s) = (\<not> isMuted s)"
  by (simp add: clickMute_frame render_def)

text \<open>
  Claim C5. While the session is active and holds its channel, the frames handed to the
  channel over any run of captured blocks and clicks on the mute button are the encoded
  blocks that arrived while the mute flag was clear, in their order, and nothing else: a
  block that arrives while the flag is set is never sent, neither then nor later, and the
  first block after an unmute is sent.
\<close>

theorem mute_gates_transmission:
  assumes "active s (run c)" and "sessionPromiseRef s = Some ch"
    and "isMutedRef s = isMuted s"
  shows "sent (capture c now evs s) =
           sent s @ map (\<lambda>inputData. (ch, createBlob inputData)) (transmitted (isMuted s) evs)"
  using assms
proof (induction evs arbitrary: s)
  case Nil
  then show ?case by (simp add: capture_def)
next
  case (Cons ev evs)
  show ?case
  proof (cases ev)
    case (Block inputData)
    let ?s1 = "onaudioprocess c inputData s"
    have "sent (capture c now evs ?s1) =
        sent ?s1 @ map (\<lambda>inputData. (ch, createBlob inputData)) (transmitted (isMuted ?s1) evs)"
      using Cons.prems by (intro Cons.IH) (simp_all add: onaudioprocess_frame)
    then show ?thesis
      using Cons.prems
      by (simp add: capture_def Block onaudioprocess_frame onaudioprocess_sent)
  next
    case MuteClick
    let ?s1 = "clickMute now s"
    have "sent (capture c now evs ?s1) =
        sent ?s1 @ map (\<lambda>inputData. (ch, createBlob inputData)) (transmitted (isMuted ?s1) evs)"
      using Cons.prems by (intro Cons.IH) (simp_all add: clickMute_fields)
    then show ?thesis
      by (simp add: capture_def MuteClick clickMute_fields)
  qed
qed

theorem mute_gates_transmission_witness:
  "sent (capture cb0 0 [Block [0], MuteClick, Block [1 / 2], MuteClick, Block [1 / 4]] session_open) =
     [(0, createBlob [0]), (0, createBlob [1 / 4])]"
proof -
  have h1: "active session_open (run cb0)"
    by (simp add: example_defs)
  have h2: "sessionPromiseRef session_open = Some 0"
    by (simp add: example_defs)
  have h3: "isMutedRef session_open = isMuted session_open"
    by (simp add: example_defs)
  have "isMuted session_open = False \<and> sent session_open = []"
    by (simp add: example_defs)
  then show ?thesis
    using mute_gates_transmission [OF h1 h2 h3] by simp
qed

subsection \<open>Mute in the earlier revision\<close>

text \<open>
  Claim C6 fails in the earlier revision: there a click on the mute button re-runs the
  session effect. From an open session it stops the audio contexts and the microphone
  stream, asks the channel to close, and starts a new session attempt with new contexts.
\<close>

theorem mute_restarts_session_v1:
  "status session_open_v1 = CONNECTED
   \<and> sessionPromiseRef session_open_v1 = Some 0
   \<and> closedChannels session_open_v1 = [] \<and> closedContexts session_open_v1 = []
   \<and> stoppedStreams session_open_v1 = []
   \<and> inputAudioContextRef session_open_v1 = Some 0
   \<and> closedChannels (fst (clickMute_v1 env_ok session_open_v1)) = [0]
   \<and> closedContexts (fst (clickMute_v1 env_ok session_open_v1)) = [0, 1]
   \<and> stoppedStreams (fst (clickMute_v1 env_ok session_open_v1)) = [0]
   \<and> sessionPromiseRef (fst (clickMute_v1 env_ok session_open_v1)) = None
   \<and> status (fst (clickMute_v1 env_ok session_open_v1)) = CONNECTING
   \<and> inputAudioContextRef (fst (clickMute_v1 env_ok session_open_v1)) = Some 2
   \<and> outputAudioContextRef (fst (clickMute_v1 env_ok session_open_v1)) = Some 3
   \<and> \<not> active (fst (clickMute_v1 env_ok session_open_v1)) 0
   \<and> active (fst (clickMute_v1 env_ok session_open_v1)) 1"
  by (simp add: session_open_v1_def clickMute_v1_def effect_run_v1_def startSession_v1_def
      effect_cleanup_def disconnect_def stop_sources_def current_run_def toggleMute_def
      onopen_def startSession_resume_def env_ok_def initial_def addLog_def cb0_def Let_def)

subsection \<open>Teardown and late continuations\<close>

text \<open>Every channel callback, and the capture callback, does nothing once its run is inactive.\<close>

lemma inactive_callbacks_noop:
  assumes "\<not> active s (run c)"
  shows "onopen c s = s \<and> onmessage c t now m s = (s, None) \<and> onclose c s = s
     \<and> onerror c e s = s \<and> onaudioprocess c inputData s = s
     \<and> onmessage_run c t now m s = s"
  using assms
  by (simp add: onopen_def onmessage_def onclose_def onerror_def onaudioprocess_def
      onmessage_run_def)

lemma effect_cleanup_inactive: "\<not> active (effect_cleanup k s) k"
  by (simp add: effect_cleanup_def disconnect_def stop_sources_def Let_def split: option.splits)

text \<open>
  Claim C7 fails for the continuations that follow an \<^verbatim>\<open>await\<close>: neither reads
  \<^verbatim>\<open>active\<close>. First, a message arrives in an open session, the session is torn down
  while the decode is pending, and the completion then creates and starts a source node
  on the closed output context, adds it to the active set, advances the cursor and queues
  a history update. Second, a session is torn down while it waits for the microphone,
  and the grant that arrives afterwards stores the stream, which nothing stops any more,
  and opens a channel.
\<close>

theorem late_continuations_mutate:
  "snd (onmessage cb0 0 7 late_message session_open) =
     Some \<lparr> numberOfChannels = 1, frames = 1, sampleRate = 24000, channelData = [[0]] \<rparr>
   \<and> \<not> active torn_down (run cb0)
   \<and> closedContexts torn_down = [0, 1] \<and> outputCtx cb0 = 1
   \<and> nodes torn_down = [] \<and> sourcesRef torn_down = [] \<and> nextStartTimeRef torn_down = 0
   \<and> outputBufferRef torn_down = [] \<and> historyUpdates torn_down = [SetHistory []]
   \<and> nodes late_completion =
       [\<lparr> node_ctx = 1,
           buffer = \<lparr> numberOfChannels = 1, frames = 1, sampleRate = 24000, channelData = [[0]] \<rparr>,
           startTime = 0, stopped = False \<rparr>]
   \<and> sourcesRef late_completion = [0]
   \<and> nextStartTimeRef late_completion = 1 / 24000
   \<and> historyUpdates late_completion =
       [SetHistory [], AppendTurn \<lparr> role = Assistant, msg_text = ''Hello'', timestamp = 7 \<rparr>]
   \<and> \<not> active closed_while_waiting 0
   \<and> status closed_while_waiting = DISCONNECTED
   \<and> mediaStreamRef closed_while_waiting = None
   \<and> sessionPromiseRef closed_while_waiting = None
   \<and> channels closed_while_waiting = 0
   \<and> mediaStreamRef late_grant = Some 0
   \<and> stoppedStreams late_grant = []
   \<and> sessionPromiseRef late_grant = Some 0
   \<and> channels late_grant = 1
   \<and> closedChannels late_grant = []
   \<and> \<not> active late_grant 0"
  by (simp add: late_completion_def torn_down_def late_message_def effect_cleanup_def
      disconnect_def late_grant_def closed_while_waiting_def session_waiting_def
      example_defs message_defs setup_defs)

subsection \<open>Session status\<close>






lemma foldl_applyUpdate_SetHistory:
  "foldl (applyUpdate ob now) h (q @ [SetHistory h']) = h'"
  by simp




subsection \<open>Setup failures\<close>

text \<open>
  Claim C9. Each setup failure sets the status to \<open>ERROR\<close> and stores its message as the
  one error message, replacing whatever was held, so that the banner shows it with the
  retry button; the attempt goes no further (no microphone closure is handed on, no
  channel is opened). The failures are: no credential; an audio context that cannot be
  constructed; a microphone request that is rejected; a client that cannot be constructed;
  and, while the run is active, an error reported by the channel.
\<close>

theorem setup_failure_errors:
  "(\<not> API_KEY env \<longrightarrow>
      shows_error ''API Key not found in environment.'' (fst (effect_run env s))
      \<and> snd (effect_run env s) = None
      \<and> channels (fst (effect_run env s)) = channels s
      \<and> sessionPromiseRef (fst (effect_run env s)) = sessionPromiseRef s)
   \<and> (API_KEY env \<and> audioContextError env = Some e \<longrightarrow>
      shows_error (if e = [] then ''Failed to initialize session'' else e) (fst (effect_run env s))
      \<and> snd (effect_run env s) = None
      \<and> channels (fst (effect_run env s)) = channels s
      \<and> sessionPromiseRef (fst (effect_run env s)) = sessionPromiseRef s)
   \<and> shows_error (if e = [] then ''Failed to initialize session'' else e)
        (startSession_resume (Denied e) clientError s)
   \<and> channels (startSession_resume (Denied e) clientError s) = channels s
   \<and> sessionPromiseRef (startSession_resume (Denied e) clientError s) = sessionPromiseRef s
   \<and> shows_error (if e = [] then ''Failed to initialize session'' else e)
        (startSession_resume Granted (Some e) s)
   \<and> channels (startSession_resume Granted (Some e) s) = channels s
   \<and> sessionPromiseRef (startSession_resume Granted (Some e) s) = sessionPromiseRef s
   \<and> (active s (run c) \<longrightarrow>
      shows_error (''Connection Error: '' @ (if e = [] then ''Unknown error'' else e))
        (onerror c e s))"
  by (simp add: shows_error_def errorBanner_def retryOffered_def effect_run_def startSession_def
      startSession_resume_def setupFailed_def onerror_def addLog_def Let_def)

theorem setup_failure_errors_witness:
  "shows_error ''API Key not found in environment.'' (fst (effect_run env_no_key session_errored))
   \<and> errorMsg session_errored = Some ''Connection Error: socket failed''
   \<and> shows_error ''Connection Error: socket failed'' (onerror cb0 ''socket failed'' session_open)"
proof -
  have h1: "\<not> API_KEY env_no_key"
    by (simp add: env_no_key_def)
  have h2: "active session_open (run cb0)"
    by (simp add: example_defs)
  have "errorMsg session_errored = Some ''Connection Error: socket failed''"
    by (simp add: session_errored_def onerror_def example_defs)
  then show ?thesis
    using setup_failure_errors [where env = env_no_key and s = session_errored]
      setup_failure_errors [where s = session_open and c = cb0 and e = "''socket failed''"] h1 h2
    by simp
qed

subsection \<open>Base64\<close>

lemma b64_index_char: "i < 64 \<Longrightarrow> b64_index (b64_char i) = Some i"
  by (auto simp: b64_index_def b64_char_def Let_def)

lemma b64_char_plain:
  "i < 64 \<Longrightarrow> \<not> ascii_whitespace (b64_char i) \<and> b64_char i \<noteq> CHR ''=''"
  by (auto simp: b64_char_def ascii_whitespace_def dest!: arg_cong [where f = "of_char :: char \<Rightarrow> nat"])

lemma sextets_bound: "\<forall>a \<in> set xs. a < 256 \<Longrightarrow> \<forall>k \<in> set (sextets xs). k < 64"
proof (induction xs rule: sextets.induct)
  case 1
  then show ?case by simp
next
  case (2 a)
  then show ?case by (simp; linarith)
next
  case (3 a b)
  then show ?case by (simp; linarith)
next
  case (4 a b c rest)
  then show ?case by (simp; linarith)
qed

lemma length_sextets:
  "length (sextets xs) =
     4 * (length xs div 3) + (if length xs mod 3 = 0 then 0 else length xs mod 3 + 1)"
  by (induction xs rule: sextets.induct) simp_all

lemma octets_sextets: "\<forall>a \<in> set xs. a < 256 \<Longrightarrow> octets (sextets xs) = xs"
proof (induction xs rule: sextets.induct)
  case 1
  then show ?case by simp
next
  case (2 a)
  have "a div 4 * 4 + a mod 4 * 16 div 16 = a" by simp
  then show ?case by simp
next
  case (3 a b)
  then have b: "b < 256" by simp
  have "a div 4 * 4 + (a mod 4 * 16 + b div 16) div 16 = a"
    using b by simp
  moreover have "(a mod 4 * 16 + b div 16) mod 16 * 16 + b mod 16 * 4 div 4 = b"
    using b by simp
  ultimately show ?case by simp
next
  case (4 a b c rest)
  then have b: "b < 256" and c: "c < 256" and rest: "\<forall>a \<in> set rest. a < 256"
    by simp_all
  have "a div 4 * 4 + (a mod 4 * 16 + b div 16) div 16 = a"
    using b by simp
  moreover have "(a mod 4 * 16 + b div 16) mod 16 * 16 + (b mod 16 * 4 + c div 64) div 4 = b"
    using b c by simp
  moreover have "(b mod 16 * 4 + c div 64) mod 4 * 64 + c mod 64 = c"
    using c by simp
  ultimately show ?case
    using "4.IH" [OF rest] by simp
qed

lemma strip_padding_body:
  assumes "body = [] \<or> last body \<noteq> CHR ''=''" and "k \<le> 2" and "body = [] \<longrightarrow> k = 0"
  shows "strip_padding (body @ replicate k (CHR ''='')) = body"
proof -
  consider "k = 0" | "k = 1" | "k = 2"
    using assms(2) by linarith
  then show ?thesis
  proof cases
    case 1
    with assms(1) show ?thesis by (auto simp: strip_padding_def)
  next
    case 2
    with assms show ?thesis by (auto simp: strip_padding_def)
  next
    case 3
    then have "replicate k (CHR ''='') = [CHR ''='', CHR ''='']"
      by (simp add: numeral_2_eq_2)
    then show ?thesis
      by (simp add: strip_padding_def butlast_append)
  qed
qed

lemma those_map_Some: "those (map Some xs) = Some xs"
  by (induction xs) simp_all

lemma atob_btoa: "atob (btoa s) = Some s"
proof -
  let ?xs = "map of_char s :: nat list"
  let ?body = "map b64_char (sextets ?xs)"
  let ?k = "(3 - length s mod 3) mod 3"
  have small: "\<forall>a \<in> set ?xs. a < 256"
    by simp
  have six: "\<forall>k \<in> set (sextets ?xs). k < 64"
    by (rule sextets_bound [OF small])
  have plain: "\<forall>ch \<in> set ?body. \<not> ascii_whitespace ch \<and> ch \<noteq> CHR ''=''"
    using six b64_char_plain by auto
  have pad_ws: "\<not> ascii_whitespace (CHR ''='')"
    by (simp add: ascii_whitespace_def)
  have filt: "filter (\<lambda>ch. \<not> ascii_whitespace ch) (btoa s) = btoa s"
    using plain pad_ws by (auto simp: btoa_def filter_id_conv)
  have len_body: "length ?body = 4 * (length s div 3)
      + (if length s mod 3 = 0 then 0 else length s mod 3 + 1)"
    by (simp add: length_sextets)
  have len: "length (btoa s) mod 4 = 0"
  proof -
    consider "length s mod 3 = 0" | "length s mod 3 = 1" | "length s mod 3 = 2"
      by linarith
    then show ?thesis
      by cases (simp_all add: btoa_def length_sextets)
  qed
  have last_body: "?body = [] \<or> last ?body \<noteq> CHR ''=''"
    using plain by (metis last_in_set)
  have k2: "?k \<le> 2"
    by linarith
  have empty: "?body = [] \<longrightarrow> ?k = 0"
  proof
    assume "?body = []"
    then have "length ?body = 0" by simp
    then have "length s = 0"
      unfolding len_body by (simp split: if_splits)
    then show "?k = 0" by simp
  qed
  have strip: "strip_padding (btoa s) = ?body"
    unfolding btoa_def by (rule strip_padding_body [OF last_body k2 empty])
  have body_mod: "length ?body mod 4 \<noteq> 1"
  proof -
    have ar: "Suc (Suc (4 * n)) mod 4 \<noteq> Suc 0" "Suc (Suc (Suc (4 * n))) mod 4 \<noteq> Suc 0"
      for n :: nat
      by presburger+
    consider "length s mod 3 = 0" | "length s mod 3 = 1" | "length s mod 3 = 2"
      by linarith
    then show ?thesis
      by cases (simp_all add: length_sextets ar)
  qed
  have idx: "map b64_index ?body = map Some (sextets ?xs)"
    using six by (simp add: b64_index_char)
  have inv: "map char_of (octets (sextets ?xs)) = s"
    by (simp add: octets_sextets [OF small] comp_def)
  have dec: "(case those (map b64_index ?body) of
                None \<Rightarrow> None
              | Some ix \<Rightarrow> Some (map char_of (octets ix))) = Some s"
    by (simp only: idx those_map_Some option.case inv)
  show ?thesis
    using body_mod dec
    by (simp add: atob_def filt len strip Let_def)
qed

subsection \<open>The frame codec\<close>

lemma decode_encode: "decode (encode bytes) = Some bytes"
proof -
  have "word_of_nat (of_char (char_of (unat b)) :: nat) = b" for b :: "8 word"
  proof -
    have "unat b < 256"
      using unsigned_less [of b, where 'a = nat] by simp
    then show ?thesis by simp
  qed
  then show ?thesis
    by (simp add: decode_def encode_def atob_btoa comp_def)
qed

lemma int16_join:
  "(ucast (ucast w :: 8 word) :: 16 word) OR push_bit 8 (ucast (ucast (drop_bit 8 w) :: 8 word)) = w"
  for w :: "16 word"
proof (rule bit_word_eqI)
  fix n :: nat
  assume "n < LENGTH(16)"
  then have n: "n < 16" by simp
  show "bit ((ucast (ucast w :: 8 word) :: 16 word)
          OR push_bit 8 (ucast (ucast (drop_bit 8 w) :: 8 word))) n \<longleftrightarrow> bit w n"
  proof (cases "n < 8")
    case True
    then show ?thesis by (simp add: bit_simps)
  next
    case False
    then have "8 + (n - 8) = n" by simp
    with False n show ?thesis by (simp add: bit_simps)
  qed
qed

lemma Int16Array_of_Uint8Array: "Int16Array_of_bytes (Uint8Array_of_Int16 ws) = Some ws"
  by (induction ws) (simp_all add: Uint8Array_of_Int16_def int16_bytes_def int16_join)

lemma decodeAudioData_mono:
  assumes "ws \<noteq> []"
  shows "decodeAudioData (Uint8Array_of_Int16 ws) 16000 1 =
     Some \<lparr> numberOfChannels = 1, frames = length ws, sampleRate = 16000,
            channelData = [map (\<lambda>w. real_of_int (sint w) / 32768) ws] \<rparr>"
proof -
  have "map (\<lambda>i. real_of_int (sint (ws ! i)) / 32768) [0 ..< length ws] =
      map (\<lambda>w. real_of_int (sint w) / 32768) ws"
    by (rule nth_equalityI) simp_all
  with assms show ?thesis
    by (simp add: decodeAudioData_def Int16Array_of_Uint8Array Let_def)
qed

lemma roundTrip_eq:
  assumes "samples \<noteq> []"
  shows "roundTrip samples =
     Some (map (\<lambda>x. real_of_int (sint (ToInt16 (x * 32768))) / 32768) samples)"
proof -
  have "map (\<lambda>x. ToInt16 (x * 32768)) samples \<noteq> []"
    using assms by simp
  from decodeAudioData_mono [OF this] show ?thesis
    by (simp add: roundTrip_def createBlob_def decode_encode comp_def)
qed

lemma sint_ToInt16:
  assumes "- 32768 \<le> y" and "y < 32768"
  shows "sint (ToInt16 y) = (if 0 \<le> y then \<lfloor>y\<rfloor> else \<lceil>y\<rceil>)"
proof -
  let ?k = "if 0 \<le> y then \<lfloor>y\<rfloor> else \<lceil>y\<rceil>"
  have "- 32768 \<le> ?k" and "?k < 32768"
    using assms by (auto simp: le_floor_iff floor_less_iff le_ceiling_iff ceiling_less_iff)
  then have "signed_take_bit 15 ?k = ?k"
    by (intro signed_take_bit_int_eq_self) simp_all
  then show ?thesis
    by (simp add: ToInt16_def sint_sbintrunc')
qed

lemma quantization_step:
  assumes "- 1 \<le> x" and "x < 1"
  shows "\<bar>real_of_int (sint (ToInt16 (x * 32768))) / 32768 - x\<bar> < 1 / 32768"
proof -
  let ?y = "x * 32768"
  have range: "- 32768 \<le> ?y" "?y < 32768"
    using assms by simp_all
  have "\<bar>real_of_int (if 0 \<le> ?y then \<lfloor>?y\<rfloor> else \<lceil>?y\<rceil>) - ?y\<bar> < 1"
    by (simp; linarith)
  then have "\<bar>real_of_int (sint (ToInt16 ?y)) - ?y\<bar> < 1"
    by (simp only: sint_ToInt16 [OF range])
  then show ?thesis
    by (simp add: field_simps abs_if split: if_splits)
qed

text \<open>
  On samples in the half-open range \<open>[-1, 1)\<close> the round trip keeps the length and
  moves no sample by a full quantization step.
\<close>

lemma roundTrip_in_range:
  assumes "samples \<noteq> []" and "\<forall>x \<in> set samples. - 1 \<le> x \<and> x < 1"
  shows "\<exists>out. roundTrip samples = Some out \<and> length out = length samples
     \<and> (\<forall>i < length samples. \<bar>out ! i - samples ! i\<bar> < 1 / 32768)"
proof -
  let ?out = "map (\<lambda>x. real_of_int (sint (ToInt16 (x * 32768))) / 32768) samples"
  have "\<bar>?out ! i - samples ! i\<bar> < 1 / 32768" if "i < length samples" for i
  proof -
    have "- 1 \<le> samples ! i \<and> samples ! i < 1"
      using assms(2) that by (meson nth_mem)
    then show ?thesis
      using quantization_step [of "samples ! i"] that by simp
  qed
  then show ?thesis
    using roundTrip_eq [OF assms(1)] by simp
qed

text \<open>
  Claim C2 fails at the upper end of the range: the sample \<open>1\<close> is scaled to \<open>32768\<close>,
  which an \<^verbatim>\<open>Int16Array\<close> stores as \<open>-32768\<close>, and comes back as \<open>-1\<close>, two units away
  from the input. (Outside the range the property fails as the claim says: \<open>3/2\<close> comes
  back as \<open>-1/2\<close>.)
\<close>

theorem roundTrip_full_scale:
  "blob_data (createBlob [1]) = ''AIA=''
   \<and> roundTrip [1] = Some [- 1]
   \<and> \<not> \<bar>(- 1 :: real) - 1\<bar> \<le> 1 / 32768
   \<and> roundTrip [3 / 2] = Some [- 1 / 2]"
proof -
  have "sint (ToInt16 32768) = - 32768" "sint (ToInt16 49152) = - 16384"
    by (simp_all add: ToInt16_def)
  then have "real_of_int (sint (ToInt16 32768)) = - 32768"
    "real_of_int (sint (ToInt16 49152)) = - 16384"
    by (simp_all only: of_int_minus of_int_numeral)
  moreover have "map b64_char [0, 8, 0] = ''AIA''"
    by (simp add: b64_char_def) (intro conjI of_char_eqI [where 'a = nat]; simp)
  then have "blob_data (createBlob [1]) = ''AIA=''"
    by (simp add: createBlob_def ToInt16_def Uint8Array_of_Int16_def int16_bytes_def encode_def
        btoa_def)
  ultimately show ?thesis
    by (simp add: roundTrip_eq)
qed

end
